theory Spec2Isabelle
  imports Complex_Main "HOL-Library.Word"
begin

section \<open>JavaScript strings\<close>

text \<open>
  A JavaScript string is a sequence of 16-bit code units. String literals of the source
  are ASCII and are written here with \<open>js\<close>, which maps every character of a HOL
  string literal to its code unit.
\<close>

type_synonym jsstring = "16 word list"

definition js :: "string \<Rightarrow> jsstring" where
  "js s = map (\<lambda>c. word_of_nat (of_char c)) s"

text \<open>
  \<open>String.prototype.trim\<close> removes, from both ends, the code units that are WhiteSpace
  or LineTerminator in ECMAScript: TAB, LF, VT, FF, CR, SPACE, NO-BREAK SPACE, U+1680,
  U+2000 to U+200A, U+2028, U+2029, U+202F, U+205F, U+3000 and U+FEFF.
\<close>

definition isWhiteSpace :: "16 word \<Rightarrow> bool" where
  "isWhiteSpace c \<longleftrightarrow>
     c = 0x0009 \<or> c = 0x000A \<or> c = 0x000B \<or> c = 0x000C \<or> c = 0x000D \<or> c = 0x0020
   \<or> c = 0x00A0 \<or> c = 0x1680 \<or> (0x2000 \<le> c \<and> c \<le> 0x200A) \<or> c = 0x2028 \<or> c = 0x2029
   \<or> c = 0x202F \<or> c = 0x205F \<or> c = 0x3000 \<or> c = 0xFEFF"

definition trimStart :: "jsstring \<Rightarrow> jsstring" where
  "trimStart s = dropWhile isWhiteSpace s"

definition trimEnd :: "jsstring \<Rightarrow> jsstring" where
  "trimEnd s = rev (dropWhile isWhiteSpace (rev s))"

definition trim :: "jsstring \<Rightarrow> jsstring" where
  "trim s = trimEnd (trimStart s)"

section \<open>SearchBar: submitting the form\<close>

text \<open>
  \<open>handleSubmit\<close> of the SearchBar component reads the component's \<open>query\<close> state and
  its \<open>isLoading\<close> prop, and calls the \<open>onSearch\<close> prop at most once. The model returns
  the list of arguments \<open>onSearch\<close> is called with, in call order. A JavaScript string is
  truthy exactly when it is not empty.
\<close>

definition handleSubmit :: "jsstring \<Rightarrow> bool \<Rightarrow> jsstring list" where
  "handleSubmit query isLoading =
     (let trimmed = trim query
      in if trimmed \<noteq> [] \<and> \<not> isLoading then [trimmed] else [])"

section \<open>ConfidenceBadge\<close>

text \<open>
  \<open>Math.round\<close> rounds to the nearest integer, a half towards positive infinity.
  Numbers are modelled as reals: the score comes out of \<open>JSON.parse\<close>, which never
  yields NaN.
\<close>

definition Math_round :: "real \<Rightarrow> int" where
  "Math_round x = \<lfloor>x + 1 / 2\<rfloor>"

text \<open>
  \<open>clsx\<close> applied to an object keeps the keys whose value is truthy, in the order of
  the object literal.
\<close>

definition clsx :: "(jsstring \<times> bool) list \<Rightarrow> jsstring list" where
  "clsx kvs = map fst (filter snd kvs)"

definition green_classes :: jsstring where
  "green_classes = js ''bg-green-100 text-green-800 dark:bg-green-900 dark:text-green-200''"

definition yellow_classes :: jsstring where
  "yellow_classes = js ''bg-yellow-100 text-yellow-800 dark:bg-yellow-900 dark:text-yellow-200''"

definition red_classes :: jsstring where
  "red_classes = js ''bg-red-100 text-red-800 dark:bg-red-900 dark:text-red-200''"

text \<open>
  What the badge renders: the number in front of \<open>/100\<close>, the label beside it, and
  the colour classes.
\<close>

record badge =
  badge_rounded :: int
  badge_label :: jsstring
  badge_colorClass :: "jsstring list"

definition ConfidenceBadge :: "real \<Rightarrow> badge" where
  "ConfidenceBadge score =
     (let rounded = Math_round score;
          colorClass = clsx [(green_classes, rounded \<ge> 70),
                             (yellow_classes, rounded \<ge> 40 \<and> rounded < 70),
                             (red_classes, rounded < 40)];
          label = (if rounded \<ge> 70 then js ''High''
                   else if rounded \<ge> 40 then js ''Medium'' else js ''Low'')
      in \<lparr>badge_rounded = rounded, badge_label = label, badge_colorClass = colorClass\<rparr>)"

section \<open>Values produced by \<open>JSON.parse\<close>\<close>

text \<open>
  The \<open>plan\<close> field of the search state has the TypeScript type \<open>any\<close>: it holds
  whatever \<open>JSON.parse\<close> returned. \<open>JUndefined\<close> is never parsed; it is the result of
  reading a property that is not there.
\<close>

datatype jsval =
    JUndefined
  | JNull
  | JBool bool
  | JNum real
  | JStr jsstring
  | JArr "jsval list"
  | JObj "(jsstring \<times> jsval) list"

datatype js_error = TypeError

section \<open>useSearch: the types matching the backend models\<close>

datatype trust_level = verified | unverified

record SourceResult =
  sr_title :: jsstring
  sr_url :: jsstring
  sr_content :: jsstring
  sr_score :: real
  sr_domain :: jsstring
  sr_is_trusted :: bool
  sr_trust_level :: trust_level
  sr_recency_score :: real
  sr_composite_score :: real
  sr_published_date :: "jsstring option"

datatype direction = up | down | flat | unknown

record KPIValue =
  kpi_label :: jsstring
  kpi_value :: "jsstring option"
  kpi_direction :: direction
  kpi_detail :: "jsstring option"

text \<open>Every member of \<open>MarketKPIs\<close> is optional and may be null.\<close>

record MarketKPIs =
  median_price :: "KPIValue option"
  price_per_sqft :: "KPIValue option"
  active_listings :: "KPIValue option"
  days_on_market :: "KPIValue option"
  sale_to_list_ratio :: "KPIValue option"
  inventory_change :: "KPIValue option"
  yoy_price_change :: "KPIValue option"
  median_rent :: "KPIValue option"

record TrendMetric =
  tm_label :: jsstring
  tm_current :: "real option"
  tm_previous :: "real option"
  tm_unit :: jsstring
  tm_change_pct :: "real option"

record CompListing =
  cl_address :: "jsstring option"
  cl_price :: "jsstring option"
  cl_sqft :: "jsstring option"
  cl_beds :: "jsstring option"
  cl_baths :: "jsstring option"
  cl_status :: "jsstring option"
  cl_source_url :: "jsstring option"

record SearchState =
  isLoading :: bool
  answer :: jsstring
  sources :: "SourceResult list"
  confidenceScore :: "real option"
  error :: "jsstring option"
  isDomainReject :: bool
  rejectReason :: jsstring
  status :: jsstring
  plan :: jsval
  kpis :: "MarketKPIs option"
  trends :: "TrendMetric list"
  comps :: "CompListing list"
  needsClarification :: bool
  clarificationQuestion :: "jsstring option"
  originalQuery :: "jsstring option"

definition INITIAL_STATE :: SearchState where
  "INITIAL_STATE =
     \<lparr>isLoading = False, answer = [], sources = [], confidenceScore = None, error = None,
      isDomainReject = False, rejectReason = [], status = [], plan = JNull, kpis = None,
      trends = [], comps = [], needsClarification = False, clarificationQuestion = None,
      originalQuery = None\<rparr>"

section \<open>useSearch: the events of the stream\<close>

text \<open>
  An event that reaches the \<open>switch\<close> of \<open>search\<close> has a non-empty type and a payload
  that \<open>JSON.parse\<close> accepted. Each case casts the payload to the type written in the
  source; the constructors below carry the payload at that type. \<open>OtherEvent\<close> is an
  event whose type matches no case of the \<open>switch\<close>.
\<close>

datatype sse_event =
    Status jsstring
  | Plan jsval
  | AnswerDelta jsstring
  | Sources "SourceResult list"
  | Confidence real
  | Kpis MarketKPIs
  | Trends "TrendMetric list"
  | Comps "CompListing list"
  | ClarificationNeeded jsstring jsstring
  | DomainRejectEvent jsstring
  | ErrorEvent jsstring
  | OtherEvent jsstring jsval

fun eventType :: "sse_event \<Rightarrow> jsstring" where
  "eventType (Status _) = js ''status''"
| "eventType (Plan _) = js ''plan''"
| "eventType (AnswerDelta _) = js ''answer_delta''"
| "eventType (Sources _) = js ''sources''"
| "eventType (Confidence _) = js ''confidence''"
| "eventType (Kpis _) = js ''kpis''"
| "eventType (Trends _) = js ''trends''"
| "eventType (Comps _) = js ''comps''"
| "eventType (ClarificationNeeded _ _) = js ''clarification_needed''"
| "eventType (DomainRejectEvent _) = js ''domain_reject''"
| "eventType (ErrorEvent _) = js ''error''"
| "eventType (OtherEvent t _) = t"

text \<open>
  One case of the \<open>switch\<close>: the state update that \<open>setState\<close> is given, applied to the
  previous state. \<open>ClarificationNeeded question original_query\<close> carries the two members
  the source reads from the payload.
\<close>

fun apply_event :: "SearchState \<Rightarrow> sse_event \<Rightarrow> SearchState" where
  "apply_event prev (Status parsed) = prev\<lparr>status := parsed\<rparr>"
| "apply_event prev (Plan parsed) = prev\<lparr>plan := parsed\<rparr>"
| "apply_event prev (AnswerDelta parsed) = prev\<lparr>answer := answer prev @ parsed, status := []\<rparr>"
| "apply_event prev (Sources parsed) = prev\<lparr>sources := parsed\<rparr>"
| "apply_event prev (Confidence parsed) = prev\<lparr>confidenceScore := Some parsed\<rparr>"
| "apply_event prev (Kpis parsed) = prev\<lparr>kpis := Some parsed\<rparr>"
| "apply_event prev (Trends parsed) = prev\<lparr>trends := parsed\<rparr>"
| "apply_event prev (Comps parsed) = prev\<lparr>comps := parsed\<rparr>"
| "apply_event prev (ClarificationNeeded question original_query) =
     prev\<lparr>needsClarification := True, clarificationQuestion := Some question,
          originalQuery := Some original_query, isLoading := False\<rparr>"
| "apply_event prev (DomainRejectEvent parsed) =
     prev\<lparr>isDomainReject := True, rejectReason := parsed\<rparr>"
| "apply_event prev (ErrorEvent parsed) = prev\<lparr>error := Some parsed\<rparr>"
| "apply_event prev (OtherEvent t parsed) = prev"

text \<open>The events of a stream are dispatched one after the other, in arrival order.\<close>

definition apply_events :: "SearchState \<Rightarrow> sse_event list \<Rightarrow> SearchState" where
  "apply_events s evs = foldl apply_event s evs"

text \<open>The payloads of the \<open>answer_delta\<close> events of a stream, in arrival order.\<close>

fun answer_deltas :: "sse_event list \<Rightarrow> jsstring list" where
  "answer_deltas [] = []"
| "answer_deltas (AnswerDelta chunk # evs) = chunk # answer_deltas evs"
| "answer_deltas (_ # evs) = answer_deltas evs"

section \<open>useSearch: the hook\<close>

text \<open>
  The hook owns the search state and \<open>abortRef\<close>, a reference to the AbortController of
  the request last started. Controllers are numbered in the order they are created;
  \<open>aborted\<close> is the set of controllers whose \<open>abort()\<close> has been called, \<open>fresh\<close> the
  number of the next controller, and \<open>requests\<close> lists the calls of \<open>fetch\<close> made so
  far, each with the controller whose signal it was given and the query in its body.
\<close>

record hook =
  state :: SearchState
  abortRef :: "nat option"
  aborted :: "nat set"
  fresh :: nat
  requests :: "(nat \<times> jsstring) list"

text \<open>
  The synchronous prefix of \<open>search(query)\<close>, up to the call of \<open>fetch\<close>: abort the
  request in flight, make a controller, reset the state, send the request.
\<close>

definition search_start :: "jsstring \<Rightarrow> hook \<Rightarrow> hook" where
  "search_start query h =
     (let ab = (case abortRef h of Some c \<Rightarrow> insert c (aborted h) | None \<Rightarrow> aborted h);
          controller = fresh h
      in h\<lparr>aborted := ab, abortRef := Some controller, fresh := Suc controller,
           state := INITIAL_STATE\<lparr>isLoading := True, status := js ''Starting search...''\<rparr>,
           requests := requests h @ [(controller, query)]\<rparr>)"

text \<open>
  What a \<open>try\<close> block can be left with: a DOMException named AbortError, an \<open>Error\<close>
  with its message, or a thrown value that is not an \<open>Error\<close>.
\<close>

datatype failure = AbortError | Error jsstring | NonError

text \<open>
  What the environment does to a request. \<open>FetchFailed\<close>: \<open>fetch\<close> rejects.
  \<open>NotOk detail status\<close>: the response is not ok and its body is not the JSON value
  null; \<open>detail\<close> is the \<open>detail\<close> member of the body, or of the fallback
  \<open>{detail: "Request failed"}\<close> when the body is not JSON, and \<open>None\<close> when the body
  has no such member. A body that is null has no outcome here: reading its \<open>detail\<close>
  throws inside the state update, outside the \<open>try\<close> block. \<open>NoBody\<close>: the response is ok
  and has no body. \<open>Stream evs ending\<close>: the events \<open>evs\<close> are read and dispatched, then
  the stream is done (\<open>None\<close>) or reading it throws (\<open>Some f\<close>).
\<close>

datatype outcome =
    FetchFailed failure
  | NotOk "jsstring option" nat
  | NoBody
  | Stream "sse_event list" "failure option"

text \<open>The decimal digits of a number, as a template literal prints a status code.\<close>

fun decimal :: "nat \<Rightarrow> jsstring" where
  "decimal n = (if n < 10 then [word_of_nat (48 + n)]
                else decimal (n div 10) @ [word_of_nat (48 + n mod 10)])"

text \<open>The \<open>catch\<close> clause of \<open>search\<close>.\<close>

fun catch_clause :: "failure \<Rightarrow> SearchState \<Rightarrow> SearchState" where
  "catch_clause AbortError prev = prev"
| "catch_clause (Error message) prev = prev\<lparr>error := Some message\<rparr>"
| "catch_clause NonError prev = prev\<lparr>error := Some (js ''An unexpected error occurred'')\<rparr>"

text \<open>The \<open>finally\<close> clause of \<open>search\<close>.\<close>

definition finally_clause :: "SearchState \<Rightarrow> SearchState" where
  "finally_clause prev = prev\<lparr>isLoading := False\<rparr>"

text \<open>How a request ends: the \<open>catch\<close> clause when something was thrown, then \<open>finally\<close>.\<close>

definition search_end :: "failure option \<Rightarrow> SearchState \<Rightarrow> SearchState" where
  "search_end ending s =
     finally_clause (case ending of None \<Rightarrow> s | Some f \<Rightarrow> catch_clause f s)"

text \<open>
  The body of \<open>search\<close> after the call of \<open>fetch\<close>, on the state the hook holds. An empty
  \<open>detail\<close> is falsy, so the status code is shown in its place.
\<close>

fun run_request :: "outcome \<Rightarrow> SearchState \<Rightarrow> SearchState" where
  "run_request (FetchFailed f) s = search_end (Some f) s"
| "run_request (NotOk detail status_code) s =
     search_end None
       (s\<lparr>isLoading := False,
          error := Some (case detail of
                           Some d \<Rightarrow> if d \<noteq> [] then d else js ''Error: '' @ decimal status_code
                         | None \<Rightarrow> js ''Error: '' @ decimal status_code)\<rparr>)"
| "run_request NoBody s =
     search_end None (s\<lparr>isLoading := False, error := Some (js ''No response stream'')\<rparr>)"
| "run_request (Stream evs ending) s = search_end ending (apply_events s evs)"

text \<open>A call of \<open>search\<close> that runs to its end with nothing else touching the hook.\<close>

definition search :: "jsstring \<Rightarrow> outcome \<Rightarrow> hook \<Rightarrow> hook" where
  "search query out h =
     (let h' = search_start query h in h'\<lparr>state := run_request out (state h')\<rparr>)"

text \<open>\<open>cancel\<close> of the hook.\<close>

definition cancel :: "hook \<Rightarrow> hook" where
  "cancel h =
     (let h' = (case abortRef h of
                  Some c \<Rightarrow> h\<lparr>aborted := insert c (aborted h), abortRef := None\<rparr>
                | None \<Rightarrow> h)
      in h'\<lparr>state := (state h')\<lparr>isLoading := False\<rparr>\<rparr>)"

text \<open>
  A run that is cancelled while its stream is being read: \<open>search\<close> starts, the events
  \<open>evs\<close> arrive and are dispatched, \<open>cancel\<close> is called, and the pending read of the
  aborted request throws AbortError.
\<close>

definition cancelled_run :: "jsstring \<Rightarrow> sse_event list \<Rightarrow> hook \<Rightarrow> hook" where
  "cancelled_run query evs h =
     (let h1 = search_start query h;
          h2 = h1\<lparr>state := apply_events (state h1) evs\<rparr>;
          h3 = cancel h2
      in h3\<lparr>state := search_end (Some AbortError) (state h3)\<rparr>)"

section \<open>The page\<close>

text \<open>
  The page passes \<open>handleSearch\<close>, which calls \<open>search\<close>, as the \<open>onSearch\<close> prop of the
  search bar, and the hook's \<open>isLoading\<close> as its \<open>isLoading\<close> prop. Submitting the form
  starts one search per call of \<open>onSearch\<close>.
\<close>

definition submitForm :: "jsstring \<Rightarrow> hook \<Rightarrow> hook" where
  "submitForm query h =
     foldl (\<lambda>h q. search_start q h) h (handleSubmit query (isLoading (state h)))"

definition allowedWidgets :: "jsstring list" where
  "allowedWidgets =
     [js ''market_snapshot'', js ''trend_chart'', js ''scenario_explorer'',
      js ''comps_table'', js ''distribution'', js ''map_view'']"

text \<open>
  \<open>plan?.widgets\<close>: undefined when the plan is null or undefined, else the property
  \<open>widgets\<close> of the plan. Only an object parsed from JSON can have that property; a
  string, a number, a boolean or an array has none.
\<close>

fun plan_widgets :: "jsval \<Rightarrow> jsval" where
  "plan_widgets (JObj members) =
     (case map_of members (js ''widgets'') of Some v \<Rightarrow> v | None \<Rightarrow> JUndefined)"
| "plan_widgets _ = JUndefined"

text \<open>\<open>v ?? d\<close>: \<open>d\<close> when \<open>v\<close> is null or undefined, else \<open>v\<close>.\<close>

fun nullish :: "jsval \<Rightarrow> jsval \<Rightarrow> jsval" where
  "nullish JUndefined d = d"
| "nullish JNull d = d"
| "nullish v d = v"

text \<open>
  \<open>allowedWidgets.includes(w)\<close> compares with SameValueZero: it holds exactly when
  \<open>w\<close> is a string equal to one of the six names.
\<close>

fun includes_allowed :: "jsval \<Rightarrow> bool" where
  "includes_allowed (JStr w) = (w \<in> set allowedWidgets)"
| "includes_allowed _ = False"

text \<open>
  \<open>widgetsToRender\<close> of the page. Only an array has a \<open>filter\<close> method: on any other
  value that is not null or undefined the call throws a TypeError.
\<close>

definition widgetsToRender :: "jsval \<Rightarrow> js_error + jsval list" where
  "widgetsToRender p =
     (case nullish (plan_widgets p) (JArr []) of
        JArr ws \<Rightarrow> Inr (filter includes_allowed ws)
      | _ \<Rightarrow> Inl TypeError)"

text \<open>A plan as the backend sends it, with two widgets the page does not know.\<close>

definition example_plan :: jsval where
  "example_plan =
     JObj [(js ''intent'', JStr (js ''market_context'')),
           (js ''widgets'', JArr [JStr (js ''trend_chart''), JStr (js ''heatmap''), JNum 3,
                                  JStr (js ''comps_table'')])]"

text \<open>The hook before the first search.\<close>

definition initial_hook :: hook where
  "initial_hook =
     \<lparr>state = INITIAL_STATE, abortRef = None, aborted = {}, fresh = 0, requests = []\<rparr>"

section \<open>ScenarioExplorer: the mortgage payment\<close>

text \<open>
  A JavaScript number is an IEEE 754 double: a finite value, an infinity or NaN. A finite
  double is modelled by the real it denotes; negative zero is not told apart from zero,
  so a division by zero has the sign of its dividend.
\<close>

datatype number = Finite real | PosInfinity | NegInfinity | NaN

text \<open>
  An arithmetic operation on doubles returns its exact result rounded. The rounding is a
  parameter of the model: \<open>is_double\<close> tells which reals are doubles,
  \<open>round_to_double\<close> maps the exact result of an operation to the number the operation
  returns (a double, or an infinity on overflow), and \<open>pow_approx\<close> is the
  implementation-approximated power that \<open>Math.pow\<close> returns for a finite non-zero base
  and a finite non-zero exponent.
\<close>

record float_arith =
  is_double :: "real \<Rightarrow> bool"
  round_to_double :: "real \<Rightarrow> number"
  pow_approx :: "real \<Rightarrow> real \<Rightarrow> number"

text \<open>
  What the theorems below use of IEEE 754 arithmetic, each of which round-to-nearest on
  doubles satisfies: 0 and 1 are doubles; a double is rounded to itself; a finite power
  is a double; the difference of two distinct doubles is a non-zero multiple of the
  smallest positive double and is not rounded to zero; the product of a non-zero double
  with a factor of magnitude at least 1 is not rounded to zero.
\<close>

definition ieee754 :: "float_arith \<Rightarrow> bool" where
  "ieee754 fa \<longleftrightarrow>
     is_double fa 0 \<and> is_double fa 1 \<and>
     (\<forall>x. is_double fa x \<longrightarrow> round_to_double fa x = Finite x) \<and>
     (\<forall>b e y. pow_approx fa b e = Finite y \<longrightarrow> is_double fa y) \<and>
     (\<forall>x y. is_double fa x \<and> is_double fa y \<and> x \<noteq> y \<longrightarrow>
        round_to_double fa (x - y) \<noteq> Finite 0) \<and>
     (\<forall>x y. is_double fa x \<and> x \<noteq> 0 \<and> 1 \<le> \<bar>y\<bar> \<longrightarrow>
        round_to_double fa (x * y) \<noteq> Finite 0)"

fun num_neg :: "number \<Rightarrow> number" where
  "num_neg (Finite x) = Finite (- x)"
| "num_neg PosInfinity = NegInfinity"
| "num_neg NegInfinity = PosInfinity"
| "num_neg NaN = NaN"

text \<open>\<open>a + b\<close>: the rounded sum; NaN for infinities of opposite sign.\<close>

fun num_add :: "float_arith \<Rightarrow> number \<Rightarrow> number \<Rightarrow> number" where
  "num_add fa (Finite x) (Finite y) = round_to_double fa (x + y)"
| "num_add fa NaN b = NaN"
| "num_add fa a NaN = NaN"
| "num_add fa PosInfinity NegInfinity = NaN"
| "num_add fa NegInfinity PosInfinity = NaN"
| "num_add fa PosInfinity b = PosInfinity"
| "num_add fa NegInfinity b = NegInfinity"
| "num_add fa (Finite x) b = b"

text \<open>\<open>a - b\<close> is \<open>a + (-b)\<close>.\<close>

definition num_sub :: "float_arith \<Rightarrow> number \<Rightarrow> number \<Rightarrow> number" where
  "num_sub fa a b = num_add fa a (num_neg b)"

text \<open>\<open>a * b\<close>: the rounded product; NaN for zero times an infinity.\<close>

fun num_mul :: "float_arith \<Rightarrow> number \<Rightarrow> number \<Rightarrow> number" where
  "num_mul fa (Finite x) (Finite y) = round_to_double fa (x * y)"
| "num_mul fa NaN b = NaN"
| "num_mul fa a NaN = NaN"
| "num_mul fa (Finite x) b = (if x = 0 then NaN else if 0 < x then b else num_neg b)"
| "num_mul fa a (Finite y) = (if y = 0 then NaN else if 0 < y then a else num_neg a)"
| "num_mul fa PosInfinity PosInfinity = PosInfinity"
| "num_mul fa NegInfinity NegInfinity = PosInfinity"
| "num_mul fa PosInfinity NegInfinity = NegInfinity"
| "num_mul fa NegInfinity PosInfinity = NegInfinity"

text \<open>
  \<open>a / b\<close>: a division by zero raises no error; it returns NaN for \<open>0 / 0\<close> and an
  infinity otherwise. A finite number divided by an infinity is zero.
\<close>

fun num_div :: "float_arith \<Rightarrow> number \<Rightarrow> number \<Rightarrow> number" where
  "num_div fa (Finite x) (Finite y) =
     (if y = 0 then (if x = 0 then NaN else if 0 < x then PosInfinity else NegInfinity)
      else round_to_double fa (x / y))"
| "num_div fa NaN b = NaN"
| "num_div fa a NaN = NaN"
| "num_div fa (Finite x) b = Finite 0"
| "num_div fa a (Finite y) = (if 0 \<le> y then a else num_neg a)"
| "num_div fa PosInfinity PosInfinity = NaN"
| "num_div fa NegInfinity NegInfinity = NaN"
| "num_div fa PosInfinity NegInfinity = NaN"
| "num_div fa NegInfinity PosInfinity = NaN"

definition is_integer :: "real \<Rightarrow> bool" where
  "is_integer e \<longleftrightarrow> real_of_int \<lfloor>e\<rfloor> = e"

definition is_odd_integer :: "real \<Rightarrow> bool" where
  "is_odd_integer e \<longleftrightarrow> is_integer e \<and> odd \<lfloor>e\<rfloor>"

text \<open>
  \<open>Math.pow(base, exponent)\<close>, in the order of the cases of ECMAScript's
  Number::exponentiate: NaN for the exponent NaN; 1 for the exponent 0; NaN for the base
  NaN; the cases of an infinite base; of the base 0; of an infinite exponent; NaN for a
  negative base with an exponent that is not an integer; the approximated power
  otherwise.
\<close>

fun Math_pow :: "float_arith \<Rightarrow> number \<Rightarrow> number \<Rightarrow> number" where
  "Math_pow fa b NaN = NaN"
| "Math_pow fa b (Finite e) =
     (if e = 0 then Finite 1
      else case b of
             NaN \<Rightarrow> NaN
           | PosInfinity \<Rightarrow> (if 0 < e then PosInfinity else Finite 0)
           | NegInfinity \<Rightarrow>
               (if 0 < e then (if is_odd_integer e then NegInfinity else PosInfinity)
                else Finite 0)
           | Finite x \<Rightarrow>
               (if x = 0 then (if 0 < e then Finite 0 else PosInfinity)
                else if x < 0 \<and> \<not> is_integer e then NaN
                else pow_approx fa x e))"
| "Math_pow fa b PosInfinity =
     (case b of
        NaN \<Rightarrow> NaN
      | Finite x \<Rightarrow> (if 1 < \<bar>x\<bar> then PosInfinity else if \<bar>x\<bar> = 1 then NaN else Finite 0)
      | _ \<Rightarrow> PosInfinity)"
| "Math_pow fa b NegInfinity =
     (case b of
        NaN \<Rightarrow> NaN
      | Finite x \<Rightarrow> (if 1 < \<bar>x\<bar> then Finite 0 else if \<bar>x\<bar> = 1 then NaN else PosInfinity)
      | _ \<Rightarrow> Finite 0)"

text \<open>The two locals of \<open>monthlyPayment\<close>: \<open>r\<close>, the monthly rate, and \<open>n\<close>, the months.\<close>

definition monthly_rate :: "float_arith \<Rightarrow> number \<Rightarrow> number" where
  "monthly_rate fa annualRatePct = num_div fa (num_div fa annualRatePct (Finite 100)) (Finite 12)"

definition months :: "float_arith \<Rightarrow> number \<Rightarrow> number" where
  "months fa termYears = num_mul fa termYears (Finite 12)"

text \<open>
  \<open>monthlyPayment(principal, annualRatePct, termYears)\<close>. The test \<open>r === 0\<close> holds
  exactly when \<open>r\<close> is zero; it fails for NaN.
\<close>

definition monthlyPayment :: "float_arith \<Rightarrow> number \<Rightarrow> number \<Rightarrow> number \<Rightarrow> number" where
  "monthlyPayment fa principal0 annualRatePct termYears =
     (let r = monthly_rate fa annualRatePct;
          n = months fa termYears
      in if r = Finite 0 then num_div fa principal0 n
         else num_div fa
                (num_mul fa (num_mul fa principal0 r) (Math_pow fa (num_add fa (Finite 1) r) n))
                (num_sub fa (Math_pow fa (num_add fa (Finite 1) r) n) (Finite 1)))"

text \<open>
  The right operand of the division whose result a call of \<open>monthlyPayment\<close> returns:
  \<open>n\<close> in the guarded branch, \<open>Math.pow(1 + r, n) - 1\<close> in the amortization formula.
  The call divides by zero when that operand is zero.
\<close>

definition divisor :: "float_arith \<Rightarrow> number \<Rightarrow> number \<Rightarrow> number" where
  "divisor fa annualRatePct termYears =
     (let r = monthly_rate fa annualRatePct;
          n = months fa termYears
      in if r = Finite 0 then n
         else num_sub fa (Math_pow fa (num_add fa (Finite 1) r) n) (Finite 1))"

definition divides_by_zero :: "float_arith \<Rightarrow> number \<Rightarrow> number \<Rightarrow> bool" where
  "divides_by_zero fa annualRatePct termYears \<longleftrightarrow> divisor fa annualRatePct termYears = Finite 0"

text \<open>
  Arithmetic without rounding, in which every real counts as a double. Double arithmetic
  agrees with it wherever the operands and the exact result are doubles, as for integers
  below \<open>2^53\<close>.
\<close>

definition exact_pow :: "real \<Rightarrow> real \<Rightarrow> number" where
  "exact_pow x e = (if is_integer e then Finite (x powi \<lfloor>e\<rfloor>) else Finite (x powr e))"

definition exact_arith :: float_arith where
  "exact_arith = \<lparr>is_double = (\<lambda>x. True), round_to_double = Finite, pow_approx = exact_pow\<rparr>"

section \<open>The scoring engine of the backend\<close>

text \<open>
  Modelled from the spec: the Source Trust Registry (section 4.1). The backend module
  that holds it, \<open>backend/core/sources.py\<close>, is not among the source files. A domain is
  in one of three tiers or unknown; the registry is the static list of trusted domains.
\<close>

datatype tier = Tier1 | Tier2 | Tier3

record TrustedDomain =
  td_domain :: string
  td_tier :: tier

definition tierOf :: "TrustedDomain list \<Rightarrow> string \<Rightarrow> tier option" where
  "tierOf registry d = map_of (map (\<lambda>t. (td_domain t, td_tier t)) registry) d"

text \<open>
  Modelled from the spec: \<open>trustScore(tier)\<close> of section 4.1, which is 1.0, 0.7 and 0.5
  for the tiers 1, 2 and 3, and 0.2 for an unknown domain. The function is absent from
  the source files.
\<close>

fun trustScoreOf :: "tier option \<Rightarrow> real" where
  "trustScoreOf (Some Tier1) = 1"
| "trustScoreOf (Some Tier2) = 7 / 10"
| "trustScoreOf (Some Tier3) = 5 / 10"
| "trustScoreOf None = 2 / 10"

text \<open>
  Modelled from the spec: the RawResult and ScoredSource of section 3, which the absent
  backend models define. A timestamp is a number of seconds.
\<close>

record RawResult =
  title :: string
  url :: string
  snippet :: string
  searchRelevance :: real
  publishedDate :: "int option"

record ScoredSource = RawResult +
  domain :: string
  tier :: "tier option"
  trustScore :: real
  recencyScore :: real
  compositeScore :: real
  isTrusted :: bool

definition day :: int where
  "day = 86400"

text \<open>
  Modelled from the spec: the recency score of section 4.4 (the scorer is absent from the
  source files), piecewise on the age \<open>now - publishedDate\<close>: at most 1 day gives 1.0, at
  most 7 days 0.8, at most 30 days 0.6, at most 365 days 0.4, older or unknown 0.2.
\<close>

definition recency :: "int \<Rightarrow> int option \<Rightarrow> real" where
  "recency now published =
     (case published of
        None \<Rightarrow> 2 / 10
      | Some d \<Rightarrow>
          (let age = now - d
           in if age \<le> 1 * day then 1
              else if age \<le> 7 * day then 8 / 10
              else if age \<le> 30 * day then 6 / 10
              else if age \<le> 365 * day then 4 / 10
              else 2 / 10))"

definition clamp01 :: "real \<Rightarrow> real" where
  "clamp01 x = max 0 (min 1 x)"

text \<open>
  Modelled from the spec: the composite score of section 3 (the scorer is absent from the
  source files), the weighted sum of the three factors, each clamped to [0,1].
\<close>

definition composite :: "real \<Rightarrow> real \<Rightarrow> real \<Rightarrow> real" where
  "composite trust relevance rec =
     4 / 10 * clamp01 trust + 4 / 10 * clamp01 relevance + 2 / 10 * clamp01 rec"

text \<open>
  Modelled from the spec: \<open>score(raw, now)\<close> of section 4.4, absent from the source
  files. The spec takes the domain from the host of the result's URL and does not say
  how; \<open>hostOf\<close> stands for that extraction. A source is trusted when its domain is in
  the registry.
\<close>

definition score :: "TrustedDomain list \<Rightarrow> (string \<Rightarrow> string) \<Rightarrow> RawResult \<Rightarrow> int \<Rightarrow> ScoredSource" where
  "score registry hostOf raw now =
     (let d = hostOf (url raw);
          t = tierOf registry d;
          trust = trustScoreOf t;
          rec = recency now (publishedDate raw)
      in \<lparr>title = title raw, url = url raw, snippet = snippet raw,
          searchRelevance = searchRelevance raw, publishedDate = publishedDate raw,
          domain = d, tier = t, trustScore = trust, recencyScore = rec,
          compositeScore = composite trust (searchRelevance raw) rec,
          isTrusted = (t \<noteq> None)\<rparr>)"

text \<open>
  Modelled from the spec: the Confidence Estimator of section 4.5, absent from the source
  files. It blends the mean composite score of the sources (50%), the fraction of
  trusted sources (30%) and the extraction coverage (20%), each scaled to [0,100]; with
  no source the mean and the fraction are 0, and the result is capped at 20.
\<close>

definition mean_composite :: "ScoredSource list \<Rightarrow> real" where
  "mean_composite srcs =
     (if srcs = [] then 0 else sum_list (map compositeScore srcs) / real (length srcs))"

definition trusted_fraction :: "ScoredSource list \<Rightarrow> real" where
  "trusted_fraction srcs =
     (if srcs = [] then 0 else real (length (filter isTrusted srcs)) / real (length srcs))"

definition estimate :: "ScoredSource list \<Rightarrow> real \<Rightarrow> real" where
  "estimate srcs extractionCoverage =
     (let blend = 5 / 10 * (100 * mean_composite srcs)
                + 3 / 10 * (100 * trusted_fraction srcs)
                + 2 / 10 * (100 * clamp01 extractionCoverage)
      in if srcs = [] then min 20 blend else blend)"

text \<open>
  A registry with one authoritative domain, and a result on that domain published two
  days before the time of scoring.
\<close>

definition example_registry :: "TrustedDomain list" where
  "example_registry = [\<lparr>td_domain = ''census.gov'', td_tier = Tier1\<rparr>]"

definition example_raw :: RawResult where
  "example_raw =
     \<lparr>title = ''Housing'', url = ''https://census.gov/housing'', snippet = ''New homes'',
      searchRelevance = 9 / 10, publishedDate = Some (100 * day)\<rparr>"

definition example_now :: int where
  "example_now = 102 * day"

section \<open>The search form\<close>

lemma submitForm_calls:
  "submitForm query h =
     (if trim query \<noteq> [] \<and> \<not> isLoading (state h) then search_start (trim query) h else h)"
  by (simp add: submitForm_def handleSubmit_def Let_def)

lemma requests_search_start:
  "requests (search_start q h) = requests h @ [(fresh h, q)]"
  by (simp add: search_start_def Let_def)

text \<open>
  C4. A query whose trimmed form is empty (empty or whitespace only) makes \<open>handleSubmit\<close>
  call \<open>onSearch\<close> not at all, whatever \<open>isLoading\<close> is: submitting the form leaves the hook
  as it was, so no request is sent and no stream is read. When the trimmed form is not
  empty, every call of \<open>onSearch\<close> carries the trimmed string; while no search is loading
  there is exactly that one call, and the request it sends has the trimmed string as its
  query.
\<close>

theorem handleSubmit_trimmed:
  "(trim query = [] \<longrightarrow> handleSubmit query loading = [] \<and> submitForm query h = h) \<and>
   (trim query \<noteq> [] \<longrightarrow> (\<forall>q \<in> set (handleSubmit query loading). q = trim query)) \<and>
   (trim query \<noteq> [] \<and> \<not> loading \<longrightarrow> handleSubmit query loading = [trim query]) \<and>
   (trim query \<noteq> [] \<and> \<not> isLoading (state h) \<longrightarrow>
      requests (submitForm query h) = requests h @ [(fresh h, trim query)])"
  by (simp add: handleSubmit_def Let_def submitForm_calls requests_search_start)

text \<open>
  The theorem at a query of two spaces, which starts nothing, and at a query with spaces
  around it, which is searched without them.
\<close>

theorem handleSubmit_trimmed_witness:
  "trim (js ''  '') = [] \<and> handleSubmit (js ''  '') False = [] \<and>
   submitForm (js ''  '') initial_hook = initial_hook \<and>
   trim (js '' buy a home '') \<noteq> [] \<and>
   handleSubmit (js '' buy a home '') False = [js ''buy a home''] \<and>
   requests (submitForm (js '' buy a home '') initial_hook) = [(0, js ''buy a home'')]"
proof -
  have e: "trim (js ''  '') = []"
    by (simp add: js_def trim_def trimEnd_def trimStart_def isWhiteSpace_def)
  have n: "trim (js '' buy a home '') = js ''buy a home''"
    by (simp add: js_def trim_def trimEnd_def trimStart_def isWhiteSpace_def)
  have n0: "js ''buy a home'' \<noteq> []"
    by (simp add: js_def)
  have i: "\<not> isLoading (state initial_hook)" "requests initial_hook = []" "fresh initial_hook = 0"
    by (simp_all add: initial_hook_def INITIAL_STATE_def)
  have 1: "handleSubmit (js ''  '') False = [] \<and> submitForm (js ''  '') initial_hook = initial_hook"
    using handleSubmit_trimmed [of "js ''  ''" False initial_hook] e by blast
  have 2: "handleSubmit (js '' buy a home '') False = [trim (js '' buy a home '')]"
    using handleSubmit_trimmed [of "js '' buy a home ''" False initial_hook] n n0 by metis
  have 3: "requests (submitForm (js '' buy a home '') initial_hook)
             = requests initial_hook @ [(fresh initial_hook, trim (js '' buy a home ''))]"
    using handleSubmit_trimmed [of "js '' buy a home ''" False initial_hook] n n0 i(1) by metis
  have 4: "requests (submitForm (js '' buy a home '') initial_hook) = [(0, js ''buy a home'')]"
    using 3 n i by simp
  show ?thesis
    using e n n0 1 2 4 by metis
qed

section \<open>The confidence badge\<close>

lemma label_distinct:
  "js ''High'' \<noteq> js ''Medium''" "js ''High'' \<noteq> js ''Low''" "js ''Medium'' \<noteq> js ''Low''"
  by (simp_all add: js_def)

lemma Math_round_nearest:
  "real_of_int (Math_round x) - 1 / 2 \<le> x \<and> x < real_of_int (Math_round x) + 1 / 2"
  unfolding Math_round_def by linarith

lemma ConfidenceBadge_colorClass:
  "badge_colorClass (ConfidenceBadge score0) =
     (if Math_round score0 \<ge> 70 then [green_classes]
      else if Math_round score0 \<ge> 40 then [yellow_classes] else [red_classes])"
  by (simp add: ConfidenceBadge_def Let_def clsx_def)

text \<open>
  C9. For every score the badge shows \<open>Math.round(score)\<close> in front of \<open>/100\<close>, and its
  label is High exactly when the rounded score is at least 70, Medium exactly when it
  is at least 40 and below 70, and Low exactly when it is below 40.
\<close>

theorem ConfidenceBadge_label:
  "badge_rounded (ConfidenceBadge score0) = Math_round score0 \<and>
   (badge_label (ConfidenceBadge score0) = js ''High'' \<longleftrightarrow> Math_round score0 \<ge> 70) \<and>
   (badge_label (ConfidenceBadge score0) = js ''Medium'' \<longleftrightarrow>
      40 \<le> Math_round score0 \<and> Math_round score0 < 70) \<and>
   (badge_label (ConfidenceBadge score0) = js ''Low'' \<longleftrightarrow> Math_round score0 < 40)"
  using label_distinct by (auto simp add: ConfidenceBadge_def Let_def)

section \<open>The event stream\<close>

lemma answer_apply_event:
  "answer (apply_event s e) = answer s @ concat (answer_deltas [e])"
  by (cases e) simp_all

lemma answer_deltas_Cons: "answer_deltas (e # evs) = answer_deltas [e] @ answer_deltas evs"
  by (cases e) simp_all

lemma answer_apply_events:
  "answer (apply_events s evs) = answer s @ concat (answer_deltas evs)"
  unfolding apply_events_def
proof (induction evs arbitrary: s)
  case Nil
  show ?case by simp
next
  case (Cons e evs)
  have "answer (foldl apply_event s (e # evs))
          = answer (apply_event s e) @ concat (answer_deltas evs)"
    using Cons.IH [of "apply_event s e"] by simp
  also have "\<dots> = answer s @ concat (answer_deltas [e]) @ concat (answer_deltas evs)"
    by (simp add: answer_apply_event)
  also have "\<dots> = answer s @ concat (answer_deltas (e # evs))"
    using answer_deltas_Cons [of e evs] by simp
  finally show ?case .
qed

lemma answer_deltas_map: "answer_deltas (map AnswerDelta chunks) = chunks"
  by (induction chunks) simp_all

lemma state_search_start:
  "state (search_start q h) =
     INITIAL_STATE\<lparr>isLoading := True, status := js ''Starting search...''\<rparr>"
  by (simp add: search_start_def Let_def)

lemma search_end_abort: "search_end (Some AbortError) s = s\<lparr>isLoading := False\<rparr>"
  by (simp add: search_end_def finally_clause_def)

lemma answer_search_end: "answer (search_end ending s) = answer s"
proof (cases ending)
  case None
  then show ?thesis by (simp add: search_end_def finally_clause_def)
next
  case (Some f)
  then show ?thesis by (cases f) (simp_all add: search_end_def finally_clause_def)
qed

text \<open>
  C5. Every \<open>answer_delta\<close> event appends its payload to the answer held so far. So after
  any sequence of events the answer is the previous answer followed by the payloads of
  the \<open>answer_delta\<close> events among them, in arrival order, with none dropped or moved;
  and a call of \<open>search\<close>, which starts from the empty answer, ends with exactly their
  concatenation, however the stream ends.
\<close>

theorem answer_delta_concat:
  "answer (apply_event s (AnswerDelta chunk)) = answer s @ chunk \<and>
   answer (apply_events s (map AnswerDelta chunks)) = answer s @ concat chunks \<and>
   answer (apply_events s evs) = answer s @ concat (answer_deltas evs) \<and>
   answer (state (search q (Stream evs ending) h)) = concat (answer_deltas evs)"
  by (simp add: answer_apply_events answer_deltas_map search_def Let_def state_search_start
      answer_search_end INITIAL_STATE_def)

text \<open>
  C6. An event of type \<open>sources\<close>, \<open>confidence\<close>, \<open>kpis\<close>, \<open>trends\<close>, \<open>comps\<close> or \<open>plan\<close>
  replaces the field of that name (\<open>confidenceScore\<close> for \<open>confidence\<close>) by its payload
  and changes no other field: putting the old value of that one field back gives the
  state before the event.
\<close>

theorem event_updates_one_field:
  "sources (apply_event s (Sources srcs)) = srcs \<and>
   (apply_event s (Sources srcs))\<lparr>sources := sources s\<rparr> = s \<and>
   confidenceScore (apply_event s (Confidence c)) = Some c \<and>
   (apply_event s (Confidence c))\<lparr>confidenceScore := confidenceScore s\<rparr> = s \<and>
   kpis (apply_event s (Kpis k)) = Some k \<and>
   (apply_event s (Kpis k))\<lparr>kpis := kpis s\<rparr> = s \<and>
   trends (apply_event s (Trends ts)) = ts \<and>
   (apply_event s (Trends ts))\<lparr>trends := trends s\<rparr> = s \<and>
   comps (apply_event s (Comps cs)) = cs \<and>
   (apply_event s (Comps cs))\<lparr>comps := comps s\<rparr> = s \<and>
   plan (apply_event s (Plan p)) = p \<and>
   (apply_event s (Plan p))\<lparr>plan := plan s\<rparr> = s"
  by simp

section \<open>Starting, aborting and cancelling a search\<close>

text \<open>
  C7, as stated, fails on the last part. A run that is cancelled after one chunk of the
  answer has arrived ends with that chunk still in the state, where the page shows it:
  the partial result is not discarded.
\<close>

theorem cancelled_run_keeps_partial_answer:
  "answer (state (cancelled_run (js ''rent'') [AnswerDelta (js ''Rents are'')] initial_hook))
     = js ''Rents are'' \<and>
   answer (state (cancelled_run (js ''rent'') [AnswerDelta (js ''Rents are'')] initial_hook))
     \<noteq> answer INITIAL_STATE"
  by (simp add: cancelled_run_def search_start_def cancel_def search_end_abort Let_def
      apply_events_def initial_hook_def INITIAL_STATE_def js_def)

text \<open>
  C7, amended. Every call of \<open>search\<close> first aborts the request in flight, if there is
  one, and resets the state: the answer, sources, confidence, error, kpis, trends, comps,
  plan and reject fields have their initial values before any event of the new stream is
  applied. A request that ends with AbortError only clears \<open>isLoading\<close>: the error field
  is not set, and what the events received so far have put in the state stays there,
  also when the run is ended by \<open>cancel\<close>.
\<close>

theorem search_resets_then_abort_is_silent:
  "(\<forall>c. abortRef h = Some c \<longrightarrow> c \<in> aborted (search_start q h)) \<and>
   state (search_start q h) =
     INITIAL_STATE\<lparr>isLoading := True, status := js ''Starting search...''\<rparr> \<and>
   (let s = state (search_start q h)
    in answer s = [] \<and> sources s = [] \<and> confidenceScore s = None \<and> error s = None \<and>
       kpis s = None \<and> trends s = [] \<and> comps s = [] \<and> plan s = JNull \<and>
       \<not> isDomainReject s \<and> rejectReason s = []) \<and>
   state (search q (Stream evs ending) h) =
     search_end ending
       (apply_events (INITIAL_STATE\<lparr>isLoading := True, status := js ''Starting search...''\<rparr>) evs) \<and>
   search_end (Some AbortError) s' = s'\<lparr>isLoading := False\<rparr> \<and>
   error (search_end (Some AbortError) s') = error s' \<and>
   state (cancelled_run q evs h) =
     (apply_events (INITIAL_STATE\<lparr>isLoading := True, status := js ''Starting search...''\<rparr>) evs)
       \<lparr>isLoading := False\<rparr>"
proof -
  have 1: "\<forall>c. abortRef h = Some c \<longrightarrow> c \<in> aborted (search_start q h)"
    by (simp add: search_start_def Let_def)
  have 2: "state (search q (Stream evs ending) h) =
     search_end ending
       (apply_events (INITIAL_STATE\<lparr>isLoading := True, status := js ''Starting search...''\<rparr>) evs)"
    by (simp add: search_def Let_def state_search_start)
  have 3: "state (cancelled_run q evs h) =
     (apply_events (INITIAL_STATE\<lparr>isLoading := True, status := js ''Starting search...''\<rparr>) evs)
       \<lparr>isLoading := False\<rparr>"
    by (cases "abortRef (search_start q h)")
       (simp_all add: cancelled_run_def Let_def cancel_def search_end_abort state_search_start)
  show ?thesis
    using 1 2 3 by (simp add: state_search_start search_end_abort INITIAL_STATE_def)
qed

text \<open>
  The theorem at a second search started while the first, whose controller is number 0,
  is in flight: the first request is aborted.
\<close>

theorem search_resets_then_abort_is_silent_witness:
  "abortRef (search_start (js ''a'') initial_hook) = Some 0 \<and>
   0 \<in> aborted (search_start (js ''b'') (search_start (js ''a'') initial_hook))"
proof -
  have a: "abortRef (search_start (js ''a'') initial_hook) = Some 0"
    by (simp add: search_start_def Let_def initial_hook_def)
  show ?thesis
    using search_resets_then_abort_is_silent [of "search_start (js ''a'') initial_hook" "js ''b''"] a
    by blast
qed

section \<open>The widgets of a plan\<close>

lemma includes_allowed_name: "includes_allowed w \<Longrightarrow> \<exists>n \<in> set allowedWidgets. w = JStr n"
  by (cases w) simp_all

lemma example_plan_widgets:
  "widgetsToRender example_plan = Inr [JStr (js ''trend_chart''), JStr (js ''comps_table'')]"
  by (simp add: widgetsToRender_def example_plan_def allowedWidgets_def js_def)

text \<open>
  C10. Whatever plan arrives, every widget the page renders is one of the six names of
  \<open>allowedWidgets\<close>: of a \<open>widgets\<close> array exactly the members that are such names are
  kept, in their order, and every other member is filtered out. A plan that is null or
  missing gives the empty list of widgets, not an error.
\<close>

theorem widgetsToRender_allowed:
  "widgetsToRender JNull = Inr [] \<and>
   widgetsToRender JUndefined = Inr [] \<and>
   widgetsToRender (plan INITIAL_STATE) = Inr [] \<and>
   (widgetsToRender p = Inr ws \<longrightarrow> (\<forall>w \<in> set ws. \<exists>n \<in> set allowedWidgets. w = JStr n)) \<and>
   (map_of members (js ''widgets'') = Some (JArr xs) \<longrightarrow>
      widgetsToRender (JObj members) = Inr (filter includes_allowed xs) \<and>
      (\<forall>x \<in> set xs. (\<forall>n \<in> set allowedWidgets. x \<noteq> JStr n) \<longrightarrow>
         (\<forall>ws. widgetsToRender (JObj members) = Inr ws \<longrightarrow> x \<notin> set ws)))"
proof (intro conjI impI)
  show "widgetsToRender JNull = Inr []" by (simp add: widgetsToRender_def)
  show "widgetsToRender JUndefined = Inr []" by (simp add: widgetsToRender_def)
  show "widgetsToRender (plan INITIAL_STATE) = Inr []"
    by (simp add: widgetsToRender_def INITIAL_STATE_def)
next
  assume "widgetsToRender p = Inr ws"
  then have "\<exists>xs. ws = filter includes_allowed xs"
    by (auto simp add: widgetsToRender_def split: jsval.splits)
  then show "\<forall>w \<in> set ws. \<exists>n \<in> set allowedWidgets. w = JStr n"
    using includes_allowed_name by auto
next
  assume m: "map_of members (js ''widgets'') = Some (JArr xs)"
  then show r: "widgetsToRender (JObj members) = Inr (filter includes_allowed xs)"
    by (simp add: widgetsToRender_def)
  show "\<forall>x \<in> set xs. (\<forall>n \<in> set allowedWidgets. x \<noteq> JStr n) \<longrightarrow>
         (\<forall>ws. widgetsToRender (JObj members) = Inr ws \<longrightarrow> x \<notin> set ws)"
    using r includes_allowed_name by auto
qed

text \<open>
  The theorem at a plan whose \<open>widgets\<close> hold two allowed names, an unknown name and a
  number: the two allowed names are rendered.
\<close>

theorem widgetsToRender_allowed_witness:
  "widgetsToRender example_plan = Inr [JStr (js ''trend_chart''), JStr (js ''comps_table'')] \<and>
   js ''trend_chart'' \<in> set allowedWidgets \<and> js ''comps_table'' \<in> set allowedWidgets"
proof -
  have "\<forall>w \<in> set [JStr (js ''trend_chart''), JStr (js ''comps_table'')].
          \<exists>n \<in> set allowedWidgets. w = JStr n"
    using widgetsToRender_allowed
        [of example_plan "[JStr (js ''trend_chart''), JStr (js ''comps_table'')]"]
      example_plan_widgets
    by blast
  then have "js ''trend_chart'' \<in> set allowedWidgets \<and> js ''comps_table'' \<in> set allowedWidgets"
    by auto
  then show ?thesis
    using example_plan_widgets by blast
qed

section \<open>The mortgage payment\<close>

lemma round_zero: "ieee754 fa \<Longrightarrow> round_to_double fa 0 = Finite 0"
  by (simp add: ieee754_def)

lemma monthly_rate_zero: "ieee754 fa \<Longrightarrow> monthly_rate fa (Finite 0) = Finite 0"
  by (simp add: monthly_rate_def round_zero)

lemma Math_pow_double:
  assumes "ieee754 fa" "Math_pow fa b e = Finite x"
  shows "is_double fa x"
proof -
  have d: "is_double fa 0" "is_double fa 1"
    "\<And>b e y. pow_approx fa b e = Finite y \<Longrightarrow> is_double fa y"
    using assms(1) by (auto simp add: ieee754_def)
  show ?thesis
    using assms(2) d
    by (cases e; cases b) (auto split: if_splits)
qed

lemma sub_one_zero:
  assumes "ieee754 fa" "Math_pow fa b e = pw"
  shows "num_sub fa pw (Finite 1) = Finite 0 \<longleftrightarrow> pw = Finite 1"
proof (cases pw)
  case (Finite x)
  have dx: "is_double fa x"
    using Math_pow_double [OF assms(1)] assms(2) Finite by simp
  have d1: "is_double fa 1"
    using assms(1) by (simp add: ieee754_def)
  show ?thesis
  proof (cases "x = 1")
    case True
    then show ?thesis
      using Finite round_zero [OF assms(1)] by (simp add: num_sub_def)
  next
    case False
    have "round_to_double fa (x - 1) \<noteq> Finite 0"
      using assms(1) dx d1 False unfolding ieee754_def by blast
    then show ?thesis
      using Finite False by (simp add: num_sub_def)
  qed
qed (simp_all add: num_sub_def)

lemma months_nonzero:
  assumes "ieee754 fa" "is_double fa t" "0 < t"
  shows "months fa (Finite t) \<noteq> Finite 0"
proof -
  have "t \<noteq> 0" "(1::real) \<le> \<bar>12\<bar>"
    using assms(3) by simp_all
  then have "round_to_double fa (t * 12) \<noteq> Finite 0"
    using assms(1) assms(2) unfolding ieee754_def by blast
  then show ?thesis
    by (simp add: months_def)
qed

lemma monthlyPayment_divisor:
  "monthlyPayment fa p rate t =
     (if monthly_rate fa rate = Finite 0 then num_div fa p (divisor fa rate t)
      else num_div fa
             (num_mul fa (num_mul fa p (monthly_rate fa rate))
                (Math_pow fa (num_add fa (Finite 1) (monthly_rate fa rate)) (months fa t)))
             (divisor fa rate t))"
  by (simp add: monthlyPayment_def divisor_def Let_def)

lemma ieee754_exact: "ieee754 exact_arith"
  by (auto simp add: ieee754_def exact_arith_def)

text \<open>
  A rate so small that \<open>1 + r\<close> is rounded to 1 passes the guard and divides by zero
  as well, whatever the term is, once the power of 1 is 1.
\<close>

lemma absorbed_rate_divides_by_zero:
  assumes "ieee754 fa"
    and "monthly_rate fa rate = Finite r" and "r \<noteq> 0"
    and "round_to_double fa (1 + r) = Finite 1"
    and "Math_pow fa (Finite 1) (months fa t) = Finite 1"
  shows "divides_by_zero fa rate t"
  using assms round_zero [OF assms(1)]
  by (simp add: divides_by_zero_def divisor_def num_sub_def)

text \<open>
  C8, as stated, fails on its last part: the guard excludes only the rate 0, and the
  denominator of the amortization formula is zero at other rates too. At an annual rate
  of -2400 percent the monthly rate is -2, and over the 360 months of a 30 year term
  \<open>Math.pow(1 + r, n)\<close> is \<open>(-1)^360 = 1\<close>: the function divides by zero and returns
  -Infinity. Every number of this computation is an integer below \<open>2^53\<close>, which
  double arithmetic computes without rounding.
\<close>

theorem monthlyPayment_divides_by_zero:
  "divides_by_zero exact_arith (Finite (- 2400)) (Finite 30) \<and>
   monthlyPayment exact_arith (Finite 208000) (Finite (- 2400)) (Finite 30) = NegInfinity"
  by (simp add: divides_by_zero_def divisor_def monthlyPayment_def monthly_rate_def months_def
      Let_def num_sub_def exact_arith_def exact_pow_def is_integer_def)

text \<open>
  C8, amended. In double arithmetic, for every principal and every term,
  \<open>monthlyPayment\<close> at the rate 0 returns \<open>principal / (termYears * 12)\<close> by the guarded
  branch, and the amortization formula is evaluated only when the monthly rate \<open>r\<close> is
  not 0: whenever \<open>r\<close> is 0 the result is that of the guarded branch. With a term above
  0, the call at the rate 0 does not divide by zero, and a call at any rate divides by
  zero exactly when \<open>r\<close> is not 0 and \<open>Math.pow(1 + r, n)\<close> is 1.
\<close>

theorem monthlyPayment_zero_rate:
  assumes "ieee754 fa"
  shows "monthlyPayment fa principal0 (Finite 0) termYears
           = num_div fa principal0 (num_mul fa termYears (Finite 12)) \<and>
         (monthly_rate fa annualRatePct = Finite 0 \<longrightarrow>
            monthlyPayment fa principal0 annualRatePct termYears
              = num_div fa principal0 (num_mul fa termYears (Finite 12))) \<and>
         (is_double fa t \<and> 0 < t \<longrightarrow>
            \<not> divides_by_zero fa (Finite 0) (Finite t) \<and>
            (divides_by_zero fa annualRatePct (Finite t) \<longleftrightarrow>
               monthly_rate fa annualRatePct \<noteq> Finite 0 \<and>
               Math_pow fa (num_add fa (Finite 1) (monthly_rate fa annualRatePct))
                 (months fa (Finite t)) = Finite 1))"
proof (intro conjI impI)
  show "monthlyPayment fa principal0 (Finite 0) termYears
           = num_div fa principal0 (num_mul fa termYears (Finite 12))"
    using monthly_rate_zero [OF assms] by (simp add: monthlyPayment_def months_def)
next
  assume "monthly_rate fa annualRatePct = Finite 0"
  then show "monthlyPayment fa principal0 annualRatePct termYears
              = num_div fa principal0 (num_mul fa termYears (Finite 12))"
    by (simp add: monthlyPayment_def months_def)
next
  assume t: "is_double fa t \<and> 0 < t"
  have n: "months fa (Finite t) \<noteq> Finite 0"
    using months_nonzero [OF assms] t by blast
  show "\<not> divides_by_zero fa (Finite 0) (Finite t)"
    using n monthly_rate_zero [OF assms] by (simp add: divides_by_zero_def divisor_def)
  show "divides_by_zero fa annualRatePct (Finite t) \<longleftrightarrow>
               monthly_rate fa annualRatePct \<noteq> Finite 0 \<and>
               Math_pow fa (num_add fa (Finite 1) (monthly_rate fa annualRatePct))
                 (months fa (Finite t)) = Finite 1"
  proof (cases "monthly_rate fa annualRatePct = Finite 0")
    case True
    then show ?thesis
      using n by (simp add: divides_by_zero_def divisor_def)
  next
    case False
    then show ?thesis
      using sub_one_zero [OF assms refl]
      by (simp add: divides_by_zero_def divisor_def)
  qed
qed

text \<open>
  The theorem in arithmetic without rounding: the loan of the default scenario, 208000
  over 30 years, at the rate 0 costs 208000 / 360 a month with no division by zero; and
  at a rate of 1200 percent over one year, where \<open>r\<close> is 1 and \<open>Math.pow(1 + r, n)\<close> is
  4096, there is no division by zero either.
\<close>

theorem monthlyPayment_zero_rate_witness:
  "monthlyPayment exact_arith (Finite 208000) (Finite 0) (Finite 30) = Finite (208000 / 360) \<and>
   \<not> divides_by_zero exact_arith (Finite 0) (Finite 30) \<and>
   monthly_rate exact_arith (Finite 1200) = Finite 1 \<and>
   \<not> divides_by_zero exact_arith (Finite 1200) (Finite 1)"
proof -
  have d: "is_double exact_arith 30 \<and> (0::real) < 30" "is_double exact_arith 1 \<and> (0::real) < 1"
    by (simp_all add: exact_arith_def)
  have r: "monthly_rate exact_arith (Finite 1200) = Finite 1"
    by (simp add: monthly_rate_def exact_arith_def)
  have pw: "Math_pow exact_arith (num_add exact_arith (Finite 1) (Finite 1))
              (months exact_arith (Finite 1)) = Finite 4096"
    by (simp add: months_def exact_arith_def exact_pow_def is_integer_def)
  have q: "num_div exact_arith (Finite 208000) (num_mul exact_arith (Finite 30) (Finite 12))
             = Finite (208000 / 360)"
    by (simp add: exact_arith_def)
  have 1: "monthlyPayment exact_arith (Finite 208000) (Finite 0) (Finite 30)
             = Finite (208000 / 360)"
    using monthlyPayment_zero_rate [OF ieee754_exact, of "Finite 208000" "Finite 30"] q
    by simp
  have 2: "\<not> divides_by_zero exact_arith (Finite 0) (Finite 30)"
    using monthlyPayment_zero_rate [OF ieee754_exact, of _ _ _ 30] d(1) by blast
  have 3: "\<not> divides_by_zero exact_arith (Finite 1200) (Finite 1)"
    using monthlyPayment_zero_rate [OF ieee754_exact, of _ _ "Finite 1200" 1] d(2) r pw
    by simp
  show ?thesis
    using 1 2 3 r by blast
qed

section \<open>Source scoring and confidence\<close>

lemma clamp01_range: "0 \<le> clamp01 x \<and> clamp01 x \<le> 1"
  by (simp add: clamp01_def)

lemma clamp01_id: "0 \<le> x \<Longrightarrow> x \<le> 1 \<Longrightarrow> clamp01 x = x"
  by (simp add: clamp01_def)

lemma trustScoreOf_range: "0 \<le> trustScoreOf t \<and> trustScoreOf t \<le> 1"
  by (cases t rule: trustScoreOf.cases) simp_all

lemma recency_range: "0 \<le> recency now p \<and> recency now p \<le> 1"
  by (simp add: recency_def Let_def split: option.splits)

lemma composite_range: "0 \<le> composite a b c \<and> composite a b c \<le> 1"
proof -
  have "0 \<le> clamp01 a" "clamp01 a \<le> 1" "0 \<le> clamp01 b" "clamp01 b \<le> 1"
    "0 \<le> clamp01 c" "clamp01 c \<le> 1"
    using clamp01_range by simp_all
  then show ?thesis
    unfolding composite_def by linarith
qed

text \<open>
  C1. The composite score of every scored source is 0.4 times its trust score plus 0.4
  times its search relevance plus 0.2 times its recency score, each factor clamped to
  [0,1]; it is that sum exactly, so within 1e-6 of it. The trust and recency scores lie
  in [0,1] already, and the composite score lies in [0,1].
\<close>

theorem compositeScore_weighted_sum:
  "compositeScore (score registry hostOf raw now) =
     4 / 10 * clamp01 (trustScore (score registry hostOf raw now))
     + 4 / 10 * clamp01 (searchRelevance (score registry hostOf raw now))
     + 2 / 10 * clamp01 (recencyScore (score registry hostOf raw now)) \<and>
   \<bar>compositeScore (score registry hostOf raw now)
     - (4 / 10 * clamp01 (trustScore (score registry hostOf raw now))
        + 4 / 10 * clamp01 (searchRelevance (score registry hostOf raw now))
        + 2 / 10 * clamp01 (recencyScore (score registry hostOf raw now)))\<bar> \<le> 1 / 10 ^ 6 \<and>
   clamp01 (trustScore (score registry hostOf raw now))
     = trustScore (score registry hostOf raw now) \<and>
   clamp01 (recencyScore (score registry hostOf raw now))
     = recencyScore (score registry hostOf raw now) \<and>
   0 \<le> compositeScore (score registry hostOf raw now) \<and>
   compositeScore (score registry hostOf raw now) \<le> 1"
  using composite_range [of "trustScoreOf (tierOf registry (hostOf (url raw)))"
      "searchRelevance raw" "recency now (publishedDate raw)"]
    clamp01_id trustScoreOf_range recency_range
  by (simp add: score_def Let_def composite_def)

text \<open>
  C2, as stated, contradicts its own table: an age of 2 days is above 1 day and at most
  7 days, so the recency score of a tier-1 source of relevance 0.9 published 2 days ago
  is 0.8, not 1.0, and its composite score is not 0.96.
\<close>

theorem two_day_old_source_counterexample:
  "\<not> (trustScore (score example_registry (\<lambda>u. ''census.gov'') example_raw example_now) = 1 \<and>
      recencyScore (score example_registry (\<lambda>u. ''census.gov'') example_raw example_now) = 1 \<and>
      compositeScore (score example_registry (\<lambda>u. ''census.gov'') example_raw example_now)
        = 96 / 100)"
  by (simp add: score_def Let_def example_registry_def example_raw_def example_now_def
      tierOf_def recency_def day_def)

text \<open>
  C2, amended. Scoring a source on a tier-1 domain with search relevance 0.9 and an age
  of 2 days gives the trust score 1.0, the recency score 0.8 and the composite score
  0.4 * 1.0 + 0.4 * 0.9 + 0.2 * 0.8 = 0.92. The recency score of every scored source
  follows the age table: at most 1 day gives 1.0, at most 7 days 0.8, at most 30 days
  0.6, at most 365 days 0.4, older or unknown 0.2.
\<close>

theorem two_day_old_source:
  assumes "tierOf registry (hostOf (url raw)) = Some Tier1"
    and "searchRelevance raw = 9 / 10"
    and "publishedDate raw = Some d"
    and "now - d = 2 * day"
  shows "trustScore (score registry hostOf raw now) = 1 \<and>
         recencyScore (score registry hostOf raw now) = 8 / 10 \<and>
         compositeScore (score registry hostOf raw now) = 92 / 100 \<and>
         recencyScore (score registry' hostOf' raw' now') =
           (case publishedDate raw' of
              None \<Rightarrow> 2 / 10
            | Some d' \<Rightarrow>
                if now' - d' \<le> 1 * day then 1
                else if now' - d' \<le> 7 * day then 8 / 10
                else if now' - d' \<le> 30 * day then 6 / 10
                else if now' - d' \<le> 365 * day then 4 / 10
                else 2 / 10)"
proof -
  have table: "recencyScore (score registry' hostOf' raw' now') =
           (case publishedDate raw' of
              None \<Rightarrow> 2 / 10
            | Some d' \<Rightarrow>
                if now' - d' \<le> 1 * day then 1
                else if now' - d' \<le> 7 * day then 8 / 10
                else if now' - d' \<le> 30 * day then 6 / 10
                else if now' - d' \<le> 365 * day then 4 / 10
                else 2 / 10)"
    by (simp add: score_def Let_def recency_def split: option.splits)
  have "trustScore (score registry hostOf raw now) = 1 \<and>
         recencyScore (score registry hostOf raw now) = 8 / 10 \<and>
         compositeScore (score registry hostOf raw now) = 92 / 100"
    using assms by (simp add: score_def Let_def recency_def day_def composite_def clamp01_def)
  then show ?thesis
    using table by blast
qed

text \<open>
  The theorem at a result on census.gov, a tier-1 domain of the example registry,
  published on day 100 and scored on day 102.
\<close>

theorem two_day_old_source_witness:
  "tierOf example_registry ((\<lambda>u. ''census.gov'') (url example_raw)) = Some Tier1 \<and>
   searchRelevance example_raw = 9 / 10 \<and>
   publishedDate example_raw = Some (100 * day) \<and>
   example_now - 100 * day = 2 * day \<and>
   recencyScore (score example_registry (\<lambda>u. ''census.gov'') example_raw example_now) = 8 / 10 \<and>
   compositeScore (score example_registry (\<lambda>u. ''census.gov'') example_raw example_now)
     = 92 / 100"
proof -
  have a: "tierOf example_registry ((\<lambda>u. ''census.gov'') (url example_raw)) = Some Tier1"
    by (simp add: tierOf_def example_registry_def)
  have b: "searchRelevance example_raw = 9 / 10"
    by (simp add: example_raw_def)
  have c: "publishedDate example_raw = Some (100 * day)"
    by (simp add: example_raw_def)
  have d: "example_now - 100 * day = 2 * day"
    by (simp add: example_now_def)
  show ?thesis
    using two_day_old_source [OF a b c d] a b c d by blast
qed

text \<open>
  C3. With no source the confidence estimate is at most 20, whatever the extraction
  coverage is.
\<close>

theorem estimate_no_sources: "estimate [] extractionCoverage \<le> 20"
  by (simp add: estimate_def Let_def)

end
